theory Spec2Isabelle
  imports Main "HOL-Library.FSet" "HOL-Library.AList"
begin

section \<open>Python values shared by the ledger and the reconciler\<close>

text \<open>
  The exceptions the modelled code can meet. \<open>OSError\<close> stands for every failure of
  \<^verbatim>\<open>open\<close>; \<open>ValueError\<close> covers \<^verbatim>\<open>json.JSONDecodeError\<close> and the error of
  \<^verbatim>\<open>datetime.fromisoformat\<close> on a string that is not an ISO date.
\<close>

datatype py_error = AttributeError | ValueError | TypeError | OSError

text \<open>
  An aware \<^verbatim>\<open>datetime\<close> is kept as the instant it denotes, in seconds; comparison of
  aware datetimes is comparison of instants.
\<close>

type_synonym instant = int

section \<open>Comments, tasks and mention dictionaries (integrations/asana\_client.py)\<close>

text \<open>
  The \<^verbatim>\<open>created_at\<close> value of a comment, classified by what the expression
  \<^verbatim>\<open>datetime.fromisoformat(comment['created_at'].replace('Z', '+00:00'))\<close> does with it:
  \<open>JNull\<close> is \<^verbatim>\<open>None\<close> (the story had no such field), \<open>NotIso\<close> a string that
  \<^verbatim>\<open>fromisoformat\<close> rejects, \<open>Iso t\<close> a well-formed timestamp denoting \<open>t\<close>.
\<close>

datatype created_at = JNull | NotIso | Iso instant

text \<open>
  The \<^verbatim>\<open>html_text\<close> of a comment is kept as the list of elements that
  \<^verbatim>\<open>soup.find_all('a', attrs={'data-asana-type': 'user'})\<close> finds in it, in document
  order; an empty or missing \<^verbatim>\<open>html_text\<close> is the empty list.
\<close>

record anchor =
  data_asana_gid :: "string option"
  anchor_text :: string

record comment =
  c_gid :: string
  c_created_at :: created_at
  c_author_name :: "string option"
  c_author_gid :: "string option"
  c_text :: "string option"
  c_html_text :: "anchor list"

record task =
  t_gid :: string
  t_name :: "string option"
  t_permalink_url :: "string option"
  t_project_name :: "string option"
  t_notes :: "string option"

text \<open>
  The dictionary \<^verbatim>\<open>get_unanswered_mentions\<close> appends for each unanswered mention, and
  that the ledger functions read. Only \<^verbatim>\<open>mention_story_gid\<close> is optional here
  (\<open>None\<close> when the key is absent), because the ledger reads it with \<^verbatim>\<open>.get\<close> and
  tests its truth: \<^verbatim>\<open>None\<close> and the empty string fail the test. The field
  \<^verbatim>\<open>hours_since_mention\<close>, a rounded float, is left out; \<^verbatim>\<open>comment_created_at\<close> is
  the instant instead of its ISO text.
\<close>

record mention =
  task_gid :: string
  task_name :: string
  task_url :: string
  project_name :: string
  task_description :: string
  mention_story_gid :: "string option"
  mentioned_user_name :: string
  mentioned_user_gid :: string
  author_name :: string
  author_gid :: "string option"
  comment_text :: string
  comment_created_at :: instant
  recent_comments :: "comment list"

section \<open>The dedup ledger (utils/mention\_tracker.py)\<close>

subsection \<open>The tracker file and its surroundings\<close>

text \<open>
  The JSON object in \<^verbatim>\<open>data/processed_mentions.json\<close>. The array under
  \<^verbatim>\<open>processed_ids\<close> is kept as the finite set of its elements: the order in which
  \<^verbatim>\<open>list(all_ids)\<close> writes a Python set is not fixed by the code, and the only reader
  turns the array back into a set. \<open>None\<close> is an absent key.
\<close>

record stored_json =
  j_processed_ids :: "string fset option"
  j_last_updated :: "instant option"
  j_total_processed :: "int option"

text \<open>
  The state of the tracker file: \<open>Missing\<close> when \<^verbatim>\<open>os.path.exists\<close> is false,
  \<open>Unreadable e\<close> when the file exists and the body of the \<^verbatim>\<open>try\<close> in
  \<^verbatim>\<open>load_processed_mentions\<close> raises \<open>e\<close> (the file cannot be opened, is not JSON, or
  is JSON on which \<^verbatim>\<open>data.get\<close> or \<^verbatim>\<open>set\<close> fails), \<open>Stored j\<close> when it holds a JSON
  object \<open>j\<close> whose \<^verbatim>\<open>processed_ids\<close>, when present, is an array of strings.
\<close>

datatype tracker_file = Missing | Unreadable py_error | Stored stored_json

datatype log_entry =
    InfoCreatedDataDir
  | ErrorLoading py_error
  | InfoSaved nat nat
  | ErrorSaving py_error
  | DebugSkipping string
  | InfoFiltered nat

text \<open>
  What the ledger functions read and change: whether the data directory exists, the
  tracker file, whether the file can be opened for writing, and the lines handed to the
  logger. Creating the directory is taken to succeed, and a write that fails leaves the
  file as it was.
\<close>

record world =
  data_dir_exists :: bool
  tracker_file :: tracker_file
  writable :: bool
  log :: "log_entry list"

definition logging :: "log_entry \<Rightarrow> world \<Rightarrow> world" where
  "logging e w = w\<lparr>log := log w @ [e]\<rparr>"

definition ensure_data_dir :: "world \<Rightarrow> world" where
  "ensure_data_dir w =
     (if \<not> data_dir_exists w
      then logging InfoCreatedDataDir (w\<lparr>data_dir_exists := True\<rparr>)
      else w)"

text \<open>The body of the \<^verbatim>\<open>with open(TRACKER_FILE, 'r')\<close> block: open and \<^verbatim>\<open>json.load\<close>.\<close>

definition read_json :: "world \<Rightarrow> py_error + stored_json" where
  "read_json w =
     (case tracker_file w of
        Missing \<Rightarrow> Inl OSError
      | Unreadable e \<Rightarrow> Inl e
      | Stored j \<Rightarrow> Inr j)"

text \<open>The body of the \<^verbatim>\<open>with open(TRACKER_FILE, 'w')\<close> block: open and \<^verbatim>\<open>json.dump\<close>.\<close>

definition write_json :: "stored_json \<Rightarrow> world \<Rightarrow> (py_error + unit) \<times> world" where
  "write_json j w =
     (if writable w then (Inr (), w\<lparr>tracker_file := Stored j\<rparr>) else (Inl OSError, w))"

subsection \<open>Loading\<close>

text \<open>The dictionary \<^verbatim>\<open>load_processed_mentions\<close> returns.\<close>

record tracker_data =
  processed_ids :: "string fset"
  last_updated :: "instant option"
  total_processed :: "int option"

definition empty_record :: tracker_data where
  "empty_record = \<lparr>processed_ids = {||}, last_updated = None, total_processed = Some 0\<rparr>"

definition load_processed_mentions :: "world \<Rightarrow> tracker_data \<times> world" where
  "load_processed_mentions w0 =
     (let w = ensure_data_dir w0 in
      if tracker_file w = Missing then (empty_record, w)
      else
        (case read_json w of
           Inr j \<Rightarrow>
             (\<lparr>processed_ids = (case j_processed_ids j of None \<Rightarrow> {||} | Some ids \<Rightarrow> ids),
               last_updated = j_last_updated j,
               total_processed = j_total_processed j\<rparr>, w)
         | Inl e \<Rightarrow> (empty_record, logging (ErrorLoading e) w)))"

subsection \<open>Saving\<close>

text \<open>
  \<^verbatim>\<open>save_processed_mentions(mention_ids, existing_data=None)\<close>. The clock read by
  \<^verbatim>\<open>datetime.now\<close> is the argument \<open>now\<close>. The result pairs what the caller sees
  (\<open>Inr ()\<close> for a normal return, \<open>Inl e\<close> for an exception \<open>e\<close> leaving the function)
  with the world afterwards.
\<close>

definition save_processed_mentions ::
  "instant \<Rightarrow> string fset \<Rightarrow> tracker_data option \<Rightarrow> world \<Rightarrow> (py_error + unit) \<times> world" where
  "save_processed_mentions now mention_ids existing_data w0 =
     (let w1 = ensure_data_dir w0;
          (existing, w2) =
            (case existing_data of
               None \<Rightarrow> load_processed_mentions w1
             | Some d \<Rightarrow> (d, w1));
          all_ids = processed_ids existing |\<union>| mention_ids;
          data = \<lparr>j_processed_ids = Some all_ids,
                  j_last_updated = Some now,
                  j_total_processed = Some (int (fcard all_ids))\<rparr>
      in case write_json data w2 of
           (Inr u, w3) \<Rightarrow> (Inr (), logging (InfoSaved (fcard mention_ids) (fcard all_ids)) w3)
         | (Inl e, w3) \<Rightarrow> (Inr (), logging (ErrorSaving e) w3))"

subsection \<open>Filtering and marking\<close>

text \<open>The loop of \<^verbatim>\<open>filter_new_mentions\<close>, with \<^verbatim>\<open>new_mentions\<close> and the log threaded.\<close>

fun filter_loop ::
  "string fset \<Rightarrow> mention list \<Rightarrow> mention list \<Rightarrow> world \<Rightarrow> mention list \<times> world" where
  "filter_loop ids [] new_mentions w = (new_mentions, w)"
| "filter_loop ids (m # ms) new_mentions w =
     (case mention_story_gid m of
        None \<Rightarrow> filter_loop ids ms new_mentions w
      | Some g \<Rightarrow>
          if g \<noteq> [] \<and> g |\<notin>| ids then filter_loop ids ms (new_mentions @ [m]) w
          else if g |\<in>| ids
          then filter_loop ids ms new_mentions (logging (DebugSkipping g) w)
          else filter_loop ids ms new_mentions w)"

definition filter_new_mentions :: "mention list \<Rightarrow> world \<Rightarrow> mention list \<times> world" where
  "filter_new_mentions mentions w0 =
     (let (tracker, w1) = load_processed_mentions w0;
          (new_mentions, w2) = filter_loop (processed_ids tracker) mentions [] w1
      in if length mentions \<noteq> length new_mentions
         then (new_mentions, logging (InfoFiltered (length mentions - length new_mentions)) w2)
         else (new_mentions, w2))"

text \<open>The set comprehension of \<^verbatim>\<open>mark_mentions_as_processed\<close>.\<close>

fun story_gids :: "mention list \<Rightarrow> string fset" where
  "story_gids [] = {||}"
| "story_gids (m # ms) =
     (case mention_story_gid m of
        None \<Rightarrow> story_gids ms
      | Some g \<Rightarrow> if g \<noteq> [] then finsert g (story_gids ms) else story_gids ms)"

definition mark_mentions_as_processed ::
  "instant \<Rightarrow> mention list \<Rightarrow> world \<Rightarrow> (py_error + unit) \<times> world" where
  "mark_mentions_as_processed now mentions w =
     (let mention_ids = story_gids mentions in
      if mention_ids \<noteq> {||} then save_processed_mentions now mention_ids None w
      else (Inr (), w))"


text \<open>The identifiers the ledger holds: what a load reads from the world.\<close>

definition persisted_ids :: "world \<Rightarrow> string fset" where
  "persisted_ids w = processed_ids (fst (load_processed_mentions w))"

section \<open>The mention reconciler (integrations/asana\_client.py)\<close>

subsection \<open>Mentions embedded in a comment\<close>

text \<open>One dictionary of the list \<^verbatim>\<open>extract_mentions_from_html\<close> returns.\<close>

record html_mention =
  user_gid :: string
  user_name :: string

text \<open>\<^verbatim>\<open>str.lstrip('@')\<close>.\<close>

definition lstrip_at :: "string \<Rightarrow> string" where
  "lstrip_at s = dropWhile (\<lambda>c. c = CHR ''@'') s"

fun extract_mentions_from_html :: "anchor list \<Rightarrow> html_mention list" where
  "extract_mentions_from_html [] = []"
| "extract_mentions_from_html (link # links) =
     (case data_asana_gid link of
        None \<Rightarrow> extract_mentions_from_html links
      | Some g \<Rightarrow>
          if g \<noteq> []
          then \<lparr>user_gid = g, user_name = lstrip_at (anchor_text link)\<rparr>
                 # extract_mentions_from_html links
          else extract_mentions_from_html links)"

subsection \<open>The walk over one comment timeline for one monitored user\<close>

text \<open>
  The expression in the \<^verbatim>\<open>try\<close> of the comment loop. On \<^verbatim>\<open>None\<close> the call
  \<^verbatim>\<open>comment['created_at'].replace\<close> raises \<^verbatim>\<open>AttributeError\<close>; on a string that is
  not an ISO date \<^verbatim>\<open>fromisoformat\<close> raises \<^verbatim>\<open>ValueError\<close>.
\<close>

fun parse_created_at :: "created_at \<Rightarrow> py_error + instant" where
  "parse_created_at JNull = Inl AttributeError"
| "parse_created_at NotIso = Inl ValueError"
| "parse_created_at (Iso t) = Inr t"

text \<open>An entry of \<^verbatim>\<open>mentions_to_user\<close>.\<close>

record mention_data =
  md_comment :: comment
  mentioned_at :: instant

text \<open>The inner \<^verbatim>\<open>for mention in mentions\<close> loop: one entry for each matching mention.\<close>

fun mentions_of_user ::
  "string \<Rightarrow> comment \<Rightarrow> instant \<Rightarrow> html_mention list \<Rightarrow> mention_data list" where
  "mentions_of_user u c comment_time [] = []"
| "mentions_of_user u c comment_time (m # ms) =
     (if user_gid m = u
      then \<lparr>md_comment = c, mentioned_at = comment_time\<rparr> # mentions_of_user u c comment_time ms
      else mentions_of_user u c comment_time ms)"

text \<open>
  The \<^verbatim>\<open>for comment in comments\<close> loop, with \<^verbatim>\<open>mentions_to_user\<close> and
  \<^verbatim>\<open>user_last_reply_at\<close> threaded. \<^verbatim>\<open>except (ValueError, TypeError): continue\<close> skips
  the comment; any other exception leaves the loop and the function.
\<close>

fun walk_comments ::
  "string \<Rightarrow> comment list \<Rightarrow> mention_data list \<Rightarrow> instant option \<Rightarrow>
     py_error + mention_data list \<times> instant option" where
  "walk_comments u [] mentions_to_user user_last_reply_at =
     Inr (mentions_to_user, user_last_reply_at)"
| "walk_comments u (c # cs) mentions_to_user user_last_reply_at =
     (case parse_created_at (c_created_at c) of
        Inl e \<Rightarrow>
          if e = ValueError \<or> e = TypeError
          then walk_comments u cs mentions_to_user user_last_reply_at
          else Inl e
      | Inr comment_time \<Rightarrow>
          if c_author_gid c = Some u
          then walk_comments u cs mentions_to_user
                 (case user_last_reply_at of
                    None \<Rightarrow> Some comment_time
                  | Some r \<Rightarrow> if comment_time > r then Some comment_time else Some r)
          else walk_comments u cs
                 (mentions_to_user @
                    mentions_of_user u c comment_time (extract_mentions_from_html (c_html_text c)))
                 user_last_reply_at)"

text \<open>\<^verbatim>\<open>d.get(key, default)\<close>.\<close>

definition get_default :: "'a option \<Rightarrow> 'a \<Rightarrow> 'a" where
  "get_default v d = (case v of None \<Rightarrow> d | Some x \<Rightarrow> x)"

text \<open>The dictionary appended to \<^verbatim>\<open>unanswered\<close>; \<^verbatim>\<open>comments[-5:]\<close> is the last five.\<close>

definition unanswered_entry ::
  "task \<Rightarrow> comment list \<Rightarrow> string \<Rightarrow> string \<Rightarrow> mention_data \<Rightarrow> mention" where
  "unanswered_entry tk comments u name md =
     \<lparr>task_gid = t_gid tk,
      task_name = get_default (t_name tk) ''Unknown Task'',
      task_url = get_default (t_permalink_url tk) (''https://app.asana.com/0/0/'' @ t_gid tk),
      project_name = get_default (t_project_name tk) ''No Project'',
      task_description = get_default (t_notes tk) [],
      mention_story_gid = Some (c_gid (md_comment md)),
      mentioned_user_name = name,
      mentioned_user_gid = u,
      author_name = get_default (c_author_name (md_comment md)) ''Unknown'',
      author_gid = c_author_gid (md_comment md),
      comment_text = get_default (c_text (md_comment md)) [],
      comment_created_at = mentioned_at md,
      recent_comments = drop (length comments - 5) comments\<rparr>"

text \<open>The \<^verbatim>\<open>for mention_data in mentions_to_user\<close> loop.\<close>

fun check_unanswered ::
  "task \<Rightarrow> comment list \<Rightarrow> string \<Rightarrow> string \<Rightarrow> instant \<Rightarrow> instant option \<Rightarrow>
     mention_data list \<Rightarrow> mention list" where
  "check_unanswered tk comments u name since user_last_reply_at [] = []"
| "check_unanswered tk comments u name since user_last_reply_at (md # mds) =
     (if mentioned_at md < since
      then check_unanswered tk comments u name since user_last_reply_at mds
      else
        (let has_replied =
               (case user_last_reply_at of None \<Rightarrow> False | Some r \<Rightarrow> r > mentioned_at md)
         in if \<not> has_replied
            then unanswered_entry tk comments u name md
                   # check_unanswered tk comments u name since user_last_reply_at mds
            else check_unanswered tk comments u name since user_last_reply_at mds))"

text \<open>The body of the \<^verbatim>\<open>for user_gid, user_name in monitored_user_gids.items()\<close> loop.\<close>

definition mentions_for_user ::
  "task \<Rightarrow> comment list \<Rightarrow> instant \<Rightarrow> string \<Rightarrow> string \<Rightarrow> py_error + mention list" where
  "mentions_for_user tk comments since u name =
     (case walk_comments u comments [] None of
        Inl e \<Rightarrow> Inl e
      | Inr (mentions_to_user, user_last_reply_at) \<Rightarrow>
          Inr (check_unanswered tk comments u name since user_last_reply_at mentions_to_user))"

subsection \<open>All monitored users, all tasks\<close>

fun for_users ::
  "task \<Rightarrow> comment list \<Rightarrow> instant \<Rightarrow> (string \<times> string) list \<Rightarrow> py_error + mention list" where
  "for_users tk comments since [] = Inr []"
| "for_users tk comments since ((u, name) # users) =
     (case mentions_for_user tk comments since u name of
        Inl e \<Rightarrow> Inl e
      | Inr found \<Rightarrow>
          (case for_users tk comments since users of
             Inl e \<Rightarrow> Inl e
           | Inr rest \<Rightarrow> Inr (found @ rest)))"

text \<open>
  The collaborators of \<^verbatim>\<open>get_unanswered_mentions\<close>: the directory lookup, the search
  for recently modified tasks and the comment fetch. The last two catch their own
  exceptions and return the empty list.
\<close>

record asana =
  get_user_gid_by_name :: "string \<Rightarrow> string option"
  get_tasks_modified_since :: "instant \<Rightarrow> task list"
  get_stories_for_task :: "string \<Rightarrow> comment list"

fun for_tasks ::
  "asana \<Rightarrow> instant \<Rightarrow> (string \<times> string) list \<Rightarrow> task list \<Rightarrow> py_error + mention list" where
  "for_tasks api since users [] = Inr []"
| "for_tasks api since users (tk # tasks) =
     (let comments = get_stories_for_task api (t_gid tk) in
      if comments = [] then for_tasks api since users tasks
      else
        (case for_users tk comments since users of
           Inl e \<Rightarrow> Inl e
         | Inr found \<Rightarrow>
             (case for_tasks api since users tasks of
                Inl e \<Rightarrow> Inl e
              | Inr rest \<Rightarrow> Inr (found @ rest))))"

text \<open>
  The dictionary \<^verbatim>\<open>monitored_user_gids\<close>, gid to name, in insertion order: a gid met
  again keeps its place and takes the later name.
\<close>

fun monitored_gids ::
  "asana \<Rightarrow> string list \<Rightarrow> (string \<times> string) list \<Rightarrow> (string \<times> string) list" where
  "monitored_gids api [] acc = acc"
| "monitored_gids api (name # names) acc =
     (case get_user_gid_by_name api name of
        None \<Rightarrow> monitored_gids api names acc
      | Some g \<Rightarrow>
          if g \<noteq> [] then monitored_gids api names (AList.update g name acc)
          else monitored_gids api names acc)"

text \<open>
  \<^verbatim>\<open>get_unanswered_mentions(monitored_user_names, lookback_hours)\<close>; \<open>now\<close> is the clock
  read for \<^verbatim>\<open>since\<close>.
\<close>

definition get_unanswered_mentions ::
  "asana \<Rightarrow> instant \<Rightarrow> string list \<Rightarrow> int \<Rightarrow> py_error + mention list" where
  "get_unanswered_mentions api now monitored_user_names lookback_hours =
     (let monitored_user_gids = monitored_gids api monitored_user_names [] in
      if monitored_user_gids = [] then Inr []
      else
        (let since = now - lookback_hours * 3600 in
         for_tasks api since monitored_user_gids (get_tasks_modified_since api since)))"

section \<open>What the specification says, in its own words\<close>

subsection \<open>Reconciler\<close>

text \<open>
  The timestamps of the comments the identity \<open>u\<close> authored; \<open>spec_last_reply_at\<close> is
  ``the timestamp of the most recent comment authored by that identity (initially
  undefined)''.
\<close>

fun reply_times :: "string \<Rightarrow> comment list \<Rightarrow> instant list" where
  "reply_times u [] = []"
| "reply_times u (c # cs) =
     (case c_created_at c of
        Iso t \<Rightarrow> if c_author_gid c = Some u then t # reply_times u cs else reply_times u cs
      | _ \<Rightarrow> reply_times u cs)"

definition spec_last_reply_at :: "string \<Rightarrow> comment list \<Rightarrow> instant option" where
  "spec_last_reply_at u cs =
     (if reply_times u cs = [] then None else Some (Max (set (reply_times u cs))))"

text \<open>The number of embedded references to \<open>u\<close> in the decorated form of a comment.\<close>

definition references :: "string \<Rightarrow> comment \<Rightarrow> nat" where
  "references u c =
     length (filter (\<lambda>m. user_gid m = u) (extract_mentions_from_html (c_html_text c)))"

text \<open>
  ``For every comment not authored by the monitored identity, [...] each such reference
  is a provisional candidate at that comment's timestamp.''
\<close>

fun spec_candidates :: "string \<Rightarrow> comment list \<Rightarrow> mention_data list" where
  "spec_candidates u [] = []"
| "spec_candidates u (c # cs) =
     (case c_created_at c of
        Iso t \<Rightarrow>
          if c_author_gid c = Some u then spec_candidates u cs
          else replicate (references u c) \<lparr>md_comment = c, mentioned_at = t\<rparr>
                 @ spec_candidates u cs
      | _ \<Rightarrow> spec_candidates u cs)"

text \<open>
  ``Retained if and only if its timestamp is within the lookback window and
  (\<^verbatim>\<open>last_reply_at\<close> is undefined or \<^verbatim>\<open>last_reply_at\<close> \<open>\<le>\<close> candidate timestamp).''
\<close>

definition retained :: "instant \<Rightarrow> instant option \<Rightarrow> mention_data \<Rightarrow> bool" where
  "retained since last_reply_at md =
     (since \<le> mentioned_at md \<and>
      (case last_reply_at of None \<Rightarrow> True | Some r \<Rightarrow> r \<le> mentioned_at md))"

text \<open>The unanswered mentions of \<open>u\<close> in one timeline: the retained candidates, enriched.\<close>

definition spec_unanswered ::
  "task \<Rightarrow> comment list \<Rightarrow> instant \<Rightarrow> string \<Rightarrow> string \<Rightarrow> mention list" where
  "spec_unanswered tk cs since u name =
     map (unanswered_entry tk cs u name)
       (filter (retained since (spec_last_reply_at u cs)) (spec_candidates u cs))"

text \<open>
  What one comment contributes for an identity that never posts: one event for each
  reference to the identity, when the comment is inside the lookback window.
\<close>

definition events_of_comment ::
  "task \<Rightarrow> comment list \<Rightarrow> instant \<Rightarrow> string \<Rightarrow> string \<Rightarrow> comment \<Rightarrow> mention list" where
  "events_of_comment tk cs since u name c =
     (case c_created_at c of
        Iso t \<Rightarrow>
          if since \<le> t
          then replicate (references u c)
                 (unanswered_entry tk cs u name \<lparr>md_comment = c, mentioned_at = t\<rparr>)
          else []
      | _ \<Rightarrow> [])"

subsection \<open>Ledger\<close>

text \<open>An event that carries a non-empty identifier which is not in \<open>ids\<close>.\<close>

definition unseen :: "string fset \<Rightarrow> mention \<Rightarrow> bool" where
  "unseen ids m =
     (case mention_story_gid m of None \<Rightarrow> False | Some g \<Rightarrow> g \<noteq> [] \<and> g |\<notin>| ids)"


section \<open>Auxiliary functions of the proofs\<close>

text \<open>The value of \<^verbatim>\<open>user_last_reply_at\<close> after replies at the given times, from \<open>r\<close>.\<close>

fun later :: "instant option \<Rightarrow> instant list \<Rightarrow> instant option" where
  "later r [] = r"
| "later r (t # ts) =
     later (case r of None \<Rightarrow> Some t | Some x \<Rightarrow> if t > x then Some t else Some x) ts"

text \<open>The identifiers a tracker file holds when it can be read, none otherwise.\<close>

definition ids_of_file :: "tracker_file \<Rightarrow> string fset" where
  "ids_of_file f =
     (case f of
        Stored j \<Rightarrow> (case j_processed_ids j of None \<Rightarrow> {||} | Some ids \<Rightarrow> ids)
      | _ \<Rightarrow> {||})"

section \<open>Concrete inputs\<close>

text \<open>
  The work item W of the specification's scenarios, comments by Alice (with the links
  of her decorated text) and by Bob, and the collaborators that serve them. Times are
  in hours in the specification and in seconds here.
\<close>

definition work_item :: task where
  "work_item = \<lparr>t_gid = ''W'', t_name = Some ''Work item W'', t_permalink_url = None,
                  t_project_name = None, t_notes = None\<rparr>"

definition bob_link :: anchor where
  "bob_link = \<lparr>data_asana_gid = Some ''bob'', anchor_text = ''@Bob''\<rparr>"

definition by_alice :: "string \<Rightarrow> created_at \<Rightarrow> anchor list \<Rightarrow> comment" where
  "by_alice g at links =
     \<lparr>c_gid = g, c_created_at = at, c_author_name = Some ''Alice'', c_author_gid = Some ''alice'',
      c_text = Some ''ping'', c_html_text = links\<rparr>"


definition scenario :: "comment list \<Rightarrow> asana" where
  "scenario cs =
     \<lparr>get_user_gid_by_name = (\<lambda>n. if n = ''Bob'' then Some ''bob'' else None),
      get_tasks_modified_since = (\<lambda>since. [work_item]),
      get_stories_for_task = (\<lambda>g. if g = ''W'' then cs else [])\<rparr>"

text \<open>The identifiers of the events a call returns, in order.\<close>

definition story_gids_of :: "py_error + mention list \<Rightarrow> py_error + string option list" where
  "story_gids_of r = map_sum id (map mention_story_gid) r"

text \<open>An event of work item W with the given \<^verbatim>\<open>mention_story_gid\<close>, and a world.\<close>

definition event :: "string option \<Rightarrow> mention" where
  "event g =
     \<lparr>task_gid = ''W'', task_name = ''Work item W'', task_url = ''https://app.asana.com/0/0/W'',
      project_name = ''No Project'', task_description = [], mention_story_gid = g,
      mentioned_user_name = ''Bob'', mentioned_user_gid = ''bob'', author_name = ''Alice'',
      author_gid = Some ''alice'', comment_text = ''ping'', comment_created_at = 0,
      recent_comments = []\<rparr>"

definition disk :: "tracker_file \<Rightarrow> bool \<Rightarrow> world" where
  "disk f can_write =
     \<lparr>data_dir_exists = True, tracker_file = f, writable = can_write, log = []\<rparr>"

definition ledger_with :: "string fset \<Rightarrow> tracker_file" where
  "ledger_with ids =
     Stored \<lparr>j_processed_ids = Some ids, j_last_updated = None,
             j_total_processed = Some (int (fcard ids))\<rparr>"

section \<open>Properties of the ledger\<close>

subsection \<open>What the file operations keep\<close>

lemma ensure_data_dir_file: "tracker_file (ensure_data_dir w) = tracker_file w"
  by (simp add: ensure_data_dir_def logging_def)

lemma ensure_data_dir_writable: "writable (ensure_data_dir w) = writable w"
  by (simp add: ensure_data_dir_def logging_def)

lemma logging_file: "tracker_file (logging e w) = tracker_file w"
  by (simp add: logging_def)

lemma logging_writable: "writable (logging e w) = writable w"
  by (simp add: logging_def)

lemma load_file: "tracker_file (snd (load_processed_mentions w)) = tracker_file w"
  by (simp add: load_processed_mentions_def Let_def read_json_def ensure_data_dir_file
      logging_file split: tracker_file.splits sum.splits)

lemma load_writable: "writable (snd (load_processed_mentions w)) = writable w"
  by (simp add: load_processed_mentions_def Let_def read_json_def ensure_data_dir_writable
      logging_writable split: tracker_file.splits sum.splits)

lemma load_ids: "processed_ids (fst (load_processed_mentions w)) = ids_of_file (tracker_file w)"
  by (simp add: load_processed_mentions_def Let_def read_json_def ids_of_file_def
      empty_record_def ensure_data_dir_file split: tracker_file.splits sum.splits)

lemma persisted_ids_file: "persisted_ids w = ids_of_file (tracker_file w)"
  by (simp add: persisted_ids_def load_ids)

subsection \<open>The filter loop\<close>

lemma filter_loop_fst: "fst (filter_loop ids ms acc w) = acc @ filter (unseen ids) ms"
  by (induction ms arbitrary: acc w) (auto simp: unseen_def split: option.splits)

lemma filter_loop_file: "tracker_file (snd (filter_loop ids ms acc w)) = tracker_file w"
  by (induction ms arbitrary: acc w) (auto simp: logging_file split: option.splits)

lemma filter_new_fst: "fst (filter_new_mentions ms w) = filter (unseen (persisted_ids w)) ms"
  by (simp add: filter_new_mentions_def persisted_ids_def Let_def split_beta filter_loop_fst)

lemma filter_new_file: "tracker_file (snd (filter_new_mentions ms w)) = tracker_file w"
  by (simp add: filter_new_mentions_def Let_def split_beta filter_loop_file logging_file load_file)

subsection \<open>Saving and marking\<close>

lemma save_file:
  "tracker_file (snd (save_processed_mentions now ids None w)) =
     (if writable w
      then Stored \<lparr>j_processed_ids = Some (ids_of_file (tracker_file w) |\<union>| ids),
                    j_last_updated = Some now,
                    j_total_processed = Some (int (fcard (ids_of_file (tracker_file w) |\<union>| ids)))\<rparr>
      else tracker_file w)"
proof -
  have "processed_ids (fst (load_processed_mentions (ensure_data_dir w))) = ids_of_file (tracker_file w)"
    by (simp add: load_ids ensure_data_dir_file)
  then show ?thesis
    by (simp add: save_processed_mentions_def Let_def split_beta write_json_def logging_file
        load_file load_writable ensure_data_dir_file ensure_data_dir_writable)
qed

lemma persisted_ids_mark:
  "persisted_ids (snd (mark_mentions_as_processed now ms w)) =
     (if writable w then persisted_ids w |\<union>| story_gids ms else persisted_ids w)"
  by (simp add: persisted_ids_file mark_mentions_as_processed_def Let_def save_file)
    (simp add: ids_of_file_def)

lemma unseen_story_gids:
  "m \<in> set ms \<Longrightarrow> unseen ids m \<Longrightarrow> \<exists>g. mention_story_gid m = Some g \<and> g |\<in>| story_gids ms"
  by (induction ms) (auto simp: unseen_def split: option.splits)


subsection \<open>The claims about the ledger\<close>

text \<open>
  C2, as the code has it. The specification's round trip, \<^verbatim>\<open>mark_processed(X)\<close> then
  \<^verbatim>\<open>filter_new(X)\<close> gives the empty list, holds for every list of events \<open>X\<close> when the
  tracker file can be written. (When it cannot, \<^verbatim>\<open>save_processed_mentions\<close> logs the
  failure and returns, and the events come back as new: see the counterexample below.)
\<close>

theorem mark_then_filter_empty:
  assumes "writable w"
  shows "fst (filter_new_mentions ms (snd (mark_mentions_as_processed now ms w))) = []"
proof -
  have "\<not> unseen (persisted_ids w |\<union>| story_gids ms) m" if "m \<in> set ms" for m
  proof
    assume a: "unseen (persisted_ids w |\<union>| story_gids ms) m"
    from unseen_story_gids [OF that a]
    obtain g where "mention_story_gid m = Some g" "g |\<in>| story_gids ms"
      by blast
    with a show False by (simp add: unseen_def)
  qed
  then have "filter (unseen (persisted_ids w |\<union>| story_gids ms)) ms = []"
    by (simp add: filter_empty_conv)
  with assms show ?thesis
    by (simp add: filter_new_fst persisted_ids_mark)
qed

theorem mark_then_filter_empty_witness:
  "writable (disk Missing True) \<and>
   fst (filter_new_mentions [event (Some ''C1''), event (Some ''C3'')]
          (snd (mark_mentions_as_processed 12 [event (Some ''C1''), event (Some ''C3'')]
                  (disk Missing True)))) = []"
  using mark_then_filter_empty [of "disk Missing True" "[event (Some ''C1''), event (Some ''C3'')]" 12]
  by (simp add: disk_def)

text \<open>
  C2 as stated fails: on a tracker file that cannot be written, the event marked as
  processed is returned as new by the next filter.
\<close>

theorem unwritable_ledger_round_trip_counterexample:
  "fst (filter_new_mentions [event (Some ''C1'')]
          (snd (mark_mentions_as_processed 12 [event (Some ''C1'')] (disk Missing False))))
     = [event (Some ''C1'')]"
proof -
  have "persisted_ids (snd (mark_mentions_as_processed 12 [event (Some ''C1'')] (disk Missing False)))
          = {||}"
    by (simp add: persisted_ids_mark) (simp add: persisted_ids_file disk_def ids_of_file_def)
  then show ?thesis
    by (simp add: filter_new_fst unseen_def event_def)
qed








text \<open>
  C8. Filtering is idempotent on a fixed ledger: filtering the result of
  \<^verbatim>\<open>filter_new_mentions\<close> again, in any world whose tracker file is the one the first
  call read (in particular the world that call leaves), returns the same list.
\<close>

theorem filter_new_idempotent:
  assumes "tracker_file w' = tracker_file w"
  shows "fst (filter_new_mentions (fst (filter_new_mentions ms w)) w')
           = fst (filter_new_mentions ms w)"
  using assms by (simp add: filter_new_fst persisted_ids_file)

theorem filter_new_idempotent_witness:
  "fst (filter_new_mentions
          (fst (filter_new_mentions [event (Some ''C1''), event (Some ''C3'')]
                  (disk (ledger_with {|''C3''|}) True)))
          (snd (filter_new_mentions [event (Some ''C1''), event (Some ''C3'')]
                  (disk (ledger_with {|''C3''|}) True))))
     = [event (Some ''C1'')]"
  using filter_new_idempotent [OF filter_new_file,
      of "[event (Some ''C1''), event (Some ''C3'')]" "disk (ledger_with {|''C3''|}) True"]
  by (simp add: filter_new_fst persisted_ids_file disk_def ledger_with_def ids_of_file_def
      unseen_def event_def)




section \<open>Properties of the reconciler\<close>

subsection \<open>The walk and the check, loop by loop\<close>

lemma mentions_of_user_replicate:
  "mentions_of_user u c t ms =
     replicate (length (filter (\<lambda>m. user_gid m = u) ms)) \<lparr>md_comment = c, mentioned_at = t\<rparr>"
  by (induction ms) auto

lemma walk_comments_spec:
  "JNull \<notin> c_created_at ` set cs \<Longrightarrow>
   walk_comments u cs ms r = Inr (ms @ spec_candidates u cs, later r (reply_times u cs))"
proof (induction cs arbitrary: ms r)
  case Nil
  then show ?case by simp
next
  case (Cons c cs)
  then have nn: "c_created_at c \<noteq> JNull" and rest: "JNull \<notin> c_created_at ` set cs"
    by auto
  show ?case
  proof (cases "c_created_at c")
    case JNull
    with nn show ?thesis by simp
  next
    case NotIso
    then show ?thesis using Cons.IH [OF rest] by simp
  next
    case (Iso t)
    then show ?thesis
      using Cons.IH [OF rest]
      by (simp add: mentions_of_user_replicate references_def)
  qed
qed

lemma later_Some: "later (Some x) ts = Some (Max (insert x (set ts)))"
proof (induction ts arbitrary: x)
  case Nil
  then show ?case by simp
next
  case (Cons t ts)
  have fin: "finite (set ts)" by simp
  have m: "Max (insert (max t x) (set ts)) = Max (insert x (insert t (set ts)))"
    using fin by (cases "set ts = {}") (simp_all add: max.assoc max.commute max.left_commute)
  have "later (Some x) (t # ts) = later (Some (max t x)) ts"
    by (simp add: max_def)
  also have "\<dots> = Some (Max (insert (max t x) (set ts)))"
    by (rule Cons.IH)
  finally show ?case using m by simp
qed

lemma later_None: "later None ts = (if ts = [] then None else Some (Max (set ts)))"
  by (cases ts) (simp_all add: later_Some)

lemma check_unanswered_filter:
  "check_unanswered tk cs u name since r mds =
     map (unanswered_entry tk cs u name) (filter (retained since r) mds)"
  by (induction mds) (auto simp: retained_def split: option.splits)

lemma mentions_for_user_spec:
  assumes "JNull \<notin> c_created_at ` set cs"
  shows "mentions_for_user tk cs since u name = Inr (spec_unanswered tk cs since u name)"
  using walk_comments_spec [OF assms, of u "[]" None]
  by (simp add: mentions_for_user_def check_unanswered_filter later_None spec_last_reply_at_def
      spec_unanswered_def)

text \<open>
  A comment whose \<^verbatim>\<open>created_at\<close> is a string that cannot be parsed is skipped by the
  walk, wherever it stands in the timeline.
\<close>

lemma walk_comments_skips_unparsable:
  "c_created_at c = NotIso \<Longrightarrow>
   walk_comments u (before @ c # after) ms r = walk_comments u (before @ after) ms r"
proof (induction before arbitrary: ms r)
  case Nil
  then show ?case by simp
next
  case (Cons b before)
  then show ?case
    by (cases "c_created_at b") simp_all
qed

subsection \<open>The whole pass as the concatenation of its timelines\<close>

lemma for_users_spec:
  assumes "JNull \<notin> c_created_at ` set cs"
  shows "for_users tk cs since users =
           Inr (concat (map (\<lambda>(u, name). spec_unanswered tk cs since u name) users))"
proof (induction users)
  case Nil
  then show ?case by simp
next
  case (Cons p users)
  obtain u name where p: "p = (u, name)" by (cases p)
  show ?case
    by (simp add: p Cons.IH mentions_for_user_spec [OF assms])
qed

lemma for_tasks_spec:
  assumes "\<forall>tk \<in> set tasks. JNull \<notin> c_created_at ` set (get_stories_for_task api (t_gid tk))"
  shows "for_tasks api since users tasks =
           Inr (concat (map (\<lambda>tk. concat (map (\<lambda>(u, name).
                  spec_unanswered tk (get_stories_for_task api (t_gid tk)) since u name) users))
                  tasks))"
  using assms
proof (induction tasks)
  case Nil
  then show ?case by simp
next
  case (Cons tk tasks)
  then have here: "JNull \<notin> c_created_at ` set (get_stories_for_task api (t_gid tk))"
    and rest: "\<forall>tk \<in> set tasks. JNull \<notin> c_created_at ` set (get_stories_for_task api (t_gid tk))"
    by auto
  have empty: "concat (map (\<lambda>(u, name). spec_unanswered tk [] since u name) users) = []"
    by (induction users) (auto simp: spec_unanswered_def)
  show ?case
  proof (cases "get_stories_for_task api (t_gid tk) = []")
    case True
    then show ?thesis using Cons.IH [OF rest] empty by (simp add: Let_def)
  next
    case False
    then show ?thesis
      using Cons.IH [OF rest] for_users_spec [OF here, of tk since users]
      by (simp add: Let_def)
  qed
qed

text \<open>
  When no fetched comment has a null \<^verbatim>\<open>created_at\<close>, the call returns, and its result
  is, task by task and monitored user by monitored user, the unanswered mentions of
  that user in that task's timeline.
\<close>

lemma get_unanswered_mentions_spec:
  assumes "\<forall>tk \<in> set (get_tasks_modified_since api (now - h * 3600)).
             JNull \<notin> c_created_at ` set (get_stories_for_task api (t_gid tk))"
  shows "get_unanswered_mentions api now names h =
           Inr (concat (map (\<lambda>tk. concat (map (\<lambda>(u, name).
                  spec_unanswered tk (get_stories_for_task api (t_gid tk)) (now - h * 3600) u name)
                    (monitored_gids api names [])))
                  (get_tasks_modified_since api (now - h * 3600))))"
  using for_tasks_spec [OF assms, of "now - h * 3600" "monitored_gids api names []"]
  by (simp add: get_unanswered_mentions_def Let_def)

subsection \<open>A user who never posts\<close>

lemma reply_times_none: "Some u \<notin> c_author_gid ` set cs \<Longrightarrow> reply_times u cs = []"
  by (induction cs) (auto split: created_at.splits)

lemma candidates_no_reply:
  "Some u \<notin> c_author_gid ` set cs \<Longrightarrow>
   map (unanswered_entry tk cs0 u name) (filter (retained since None) (spec_candidates u cs))
     = concat (map (events_of_comment tk cs0 since u name) cs)"
  by (induction cs) (auto simp: events_of_comment_def retained_def split: created_at.splits)

subsection \<open>The claims about the reconciler\<close>



text \<open>
  C6, as the code has it. For a timeline whose walk completes and in which the
  monitored identity \<open>u\<close> authors no comment, the output is, comment by comment and in
  order, one event for each embedded reference to \<open>u\<close> in each comment within the
  lookback window, and nothing else: a comment that references \<open>u\<close> once appears exactly
  once, a comment that references \<open>u\<close> \<open>n\<close> times appears \<open>n\<close> times.
\<close>

theorem never_posting_user_one_event_per_reference:
  assumes "JNull \<notin> c_created_at ` set cs" and "Some u \<notin> c_author_gid ` set cs"
  shows "mentions_for_user tk cs since u name =
           Inr (concat (map (events_of_comment tk cs since u name) cs))"
  using mentions_for_user_spec [OF assms(1), of tk since u name]
    candidates_no_reply [OF assms(2), of tk cs name since]
  by (simp add: spec_unanswered_def spec_last_reply_at_def reply_times_none [OF assms(2)])

theorem never_posting_user_one_event_per_reference_witness:
  "JNull \<notin> c_created_at `
     set [by_alice ''C1'' (Iso 0) [bob_link], by_alice ''C3'' (Iso 36000) [bob_link, bob_link]] \<and>
   Some ''bob'' \<notin> c_author_gid `
     set [by_alice ''C1'' (Iso 0) [bob_link], by_alice ''C3'' (Iso 36000) [bob_link, bob_link]] \<and>
   story_gids_of (mentions_for_user work_item
     [by_alice ''C1'' (Iso 0) [bob_link], by_alice ''C3'' (Iso 36000) [bob_link, bob_link]]
     (- 43200) ''bob'' ''Bob'') = Inr [Some ''C1'', Some ''C3'', Some ''C3'']"
  using never_posting_user_one_event_per_reference
    [of "[by_alice ''C1'' (Iso 0) [bob_link], by_alice ''C3'' (Iso 36000) [bob_link, bob_link]]"
        "''bob''" work_item "- 43200" "''Bob''"]
  by (simp add: events_of_comment_def references_def by_alice_def bob_link_def story_gids_of_def
      unanswered_entry_def)

text \<open>
  C6 as stated fails: Bob never posts, the one comment of the timeline is within the
  lookback window and mentions Bob in two links of its decorated form, and the output has
  two events for that comment, not one.
\<close>

theorem comment_with_two_links_counterexample:
  "story_gids_of
     (get_unanswered_mentions (scenario [by_alice ''C1'' (Iso 0) [bob_link, bob_link]])
        43200 [''Bob''] 24)
     = Inr [Some ''C1'', Some ''C1'']"
  by (simp add: get_unanswered_mentions_def scenario_def work_item_def by_alice_def
      story_gids_of_def bob_link_def mentions_for_user_def Let_def unanswered_entry_def)


text \<open>
  C10 at the failing input. A comment whose \<^verbatim>\<open>created_at\<close> is missing is not skipped:
  \<^verbatim>\<open>None.replace\<close> raises \<^verbatim>\<open>AttributeError\<close>, which the handler for
  \<^verbatim>\<open>(ValueError, TypeError)\<close> does not catch, so the whole call ends with that exception
  and the unanswered mention in C3 is lost. With a \<^verbatim>\<open>created_at\<close> that is a string but
  not an ISO date, the same comment is skipped and C3 is reported.
\<close>

theorem null_created_at_aborts_the_pass:
  "get_unanswered_mentions
     (scenario [by_alice ''C0'' JNull [bob_link], by_alice ''C3'' (Iso 36000) [bob_link]])
     43200 [''Bob''] 24 = Inl AttributeError \<and>
   story_gids_of
     (get_unanswered_mentions
        (scenario [by_alice ''C0'' NotIso [bob_link], by_alice ''C3'' (Iso 36000) [bob_link]])
        43200 [''Bob''] 24) = Inr [Some ''C3'']"
  by (simp add: get_unanswered_mentions_def scenario_def work_item_def by_alice_def
      story_gids_of_def bob_link_def mentions_for_user_def Let_def unanswered_entry_def)

end
